theory Spec2Isabelle
  imports Complex_Main "HOL-Library.Char_ord" "HOL-Library.List_Lexorder" "HOL-Library.Multiset"
begin

section \<open>JavaScript values and the builtins the report code calls\<close>

text \<open>
  The campaign report (\<^verbatim>\<open>getCampaignData\<close>, present twice in the repository with the same
  aggregation and formatting code) reads loosely typed rows from the ads API and pushes
  every metric through \<^verbatim>\<open>parseInt\<close> or \<^verbatim>\<open>parseFloat\<close> followed by \<^verbatim>\<open>|| 0\<close>.

  Numbers. A JavaScript number is an IEEE double. The model keeps the three special
  values and represents every finite number by an exact rational, and what \<^verbatim>\<open>parseInt\<close>
  reads by an exact integer, so it agrees with the program wherever no rounding and no
  overflow happens (integers below \<open>2^53\<close>, the usual case for micros, impressions and
  clicks). Negative zero is not distinguished from zero.

  Strings are lists of 8-bit characters, read as code units below 256.
\<close>

datatype num = NaN | NegInf | Fin rat | PosInf

datatype jsval = JUndefined | JNull | JNum num | JStr string

subsection \<open>Characters and digit strings\<close>

definition isDigit :: "char \<Rightarrow> bool" where
  "isDigit c = (48 \<le> (of_char c :: nat) \<and> (of_char c :: nat) \<le> 57)"

definition digitVal :: "char \<Rightarrow> nat" where
  "digitVal c = (of_char c :: nat) - 48"

definition digitChar :: "nat \<Rightarrow> char" where
  "digitChar n = char_of (48 + n)"

text \<open>Hexadecimal digits, for the \<^verbatim>\<open>0x\<close> prefix that \<^verbatim>\<open>parseInt\<close> and \<^verbatim>\<open>Number\<close> accept.\<close>

definition isHexDigit :: "char \<Rightarrow> bool" where
  "isHexDigit c = (isDigit c
     \<or> (97 \<le> (of_char c :: nat) \<and> (of_char c :: nat) \<le> 102)
     \<or> (65 \<le> (of_char c :: nat) \<and> (of_char c :: nat) \<le> 70))"

definition hexVal :: "char \<Rightarrow> nat" where
  "hexVal c = (if isDigit c then digitVal c
     else if 97 \<le> (of_char c :: nat) then (of_char c :: nat) - 87
     else (of_char c :: nat) - 55)"

text \<open>
  White space of the string-to-number grammar among the code units below 256:
  TAB, LF, VT, FF, CR, SP and NBSP.
\<close>

definition isWhiteSpace :: "char \<Rightarrow> bool" where
  "isWhiteSpace c = ((of_char c :: nat) \<in> {9, 10, 11, 12, 13, 32, 160})"

definition decValue :: "string \<Rightarrow> nat" where
  "decValue ds = foldl (\<lambda>a c. 10 * a + digitVal c) 0 ds"

definition hexValue :: "string \<Rightarrow> nat" where
  "hexValue ds = foldl (\<lambda>a c. 16 * a + hexVal c) 0 ds"

fun digits :: "nat \<Rightarrow> string" where
  "digits n = (if n < 10 then [digitChar n] else digits (n div 10) @ [digitChar (n mod 10)])"

declare digits.simps [simp del]

text \<open>
  \<^verbatim>\<open>String(n)\<close> and template interpolation of an integer. (From \<open>10^21\<close> on JavaScript
  switches to exponent notation; the model keeps positional digits.)
\<close>

definition toString_int :: "int \<Rightarrow> string" where
  "toString_int i = (if i < 0 then CHR ''-'' # digits (nat (- i)) else digits (nat i))"

subsection \<open>\<^verbatim>\<open>parseInt\<close>\<close>

text \<open>
  \<^verbatim>\<open>parseInt(string)\<close> without a radix: skip leading white space, read one optional sign,
  switch to radix 16 after \<^verbatim>\<open>0x\<close> or \<^verbatim>\<open>0X\<close>, read the longest run of digits and ignore
  whatever follows. No digit at all is \<^verbatim>\<open>NaN\<close>, here \<open>None\<close>.
\<close>

definition stripSign :: "string \<Rightarrow> int \<times> string" where
  "stripSign s = (case s of
       [] \<Rightarrow> (1, s)
     | c # r \<Rightarrow> if c = CHR ''-'' then (-1, r) else if c = CHR ''+'' then (1, r) else (1, s))"

definition hasHexPrefix :: "string \<Rightarrow> bool" where
  "hasHexPrefix s = (take 2 s = ''0x'' \<or> take 2 s = ''0X'')"

definition parseInt_str :: "string \<Rightarrow> int option" where
  "parseInt_str inputString =
     (let S = dropWhile isWhiteSpace inputString;
          sign = fst (stripSign S);
          S1 = snd (stripSign S)
      in if hasHexPrefix S1
         then (let Z = takeWhile isHexDigit (drop 2 S1)
               in if Z = [] then None else Some (sign * int (hexValue Z)))
         else (let Z = takeWhile isDigit S1
               in if Z = [] then None else Some (sign * int (decValue Z))))"

text \<open>
  \<^verbatim>\<open>parseInt\<close> of any value goes through \<^verbatim>\<open>String(value)\<close>: \<^verbatim>\<open>undefined\<close>, \<^verbatim>\<open>null\<close>, \<^verbatim>\<open>NaN\<close>
  and the infinities print as words without digits. A finite number prints positionally
  (for magnitudes from \<open>10^-6\<close> up to \<open>10^21\<close>), so reading it back cuts the fraction off.
\<close>

definition truncate_rat :: "rat \<Rightarrow> int" where
  "truncate_rat q = (if 0 \<le> q then \<lfloor>q\<rfloor> else \<lceil>q\<rceil>)"

fun parseInt :: "jsval \<Rightarrow> int option" where
  "parseInt JUndefined = None"
| "parseInt JNull = None"
| "parseInt (JStr s) = parseInt_str s"
| "parseInt (JNum (Fin q)) = Some (truncate_rat q)"
| "parseInt (JNum _) = None"

subsection \<open>\<^verbatim>\<open>parseFloat\<close> and \<^verbatim>\<open>Number\<close> on strings\<close>

text \<open>
  The longest prefix that is a signed decimal literal: \<^verbatim>\<open>Infinity\<close>, or digits with an
  optional fraction and an optional exponent. The result is the value and the unread
  rest; \<open>None\<close> when not even one character starts a literal.
\<close>

definition scanExponent :: "string \<Rightarrow> int \<times> string" where
  "scanExponent s = (case s of
       [] \<Rightarrow> (0, s)
     | c # r \<Rightarrow>
         if c = CHR ''e'' \<or> c = CHR ''E''
         then (let sg = fst (stripSign r); r1 = snd (stripSign r); ds = takeWhile isDigit r1
               in if ds = [] then (0, s) else (sg * int (decValue ds), dropWhile isDigit r1))
         else (0, s))"

definition pow10 :: "int \<Rightarrow> rat" where
  "pow10 e = (if 0 \<le> e then 10 ^ nat e else 1 / 10 ^ nat (- e))"

definition scanUnsigned :: "string \<Rightarrow> (rat \<times> string) option" where
  "scanUnsigned s =
     (let ip = takeWhile isDigit s;
          r1 = dropWhile isDigit s;
          hasDot = (take 1 r1 = ''.'');
          fp = (if hasDot then takeWhile isDigit (drop 1 r1) else []);
          r2 = (if hasDot \<and> (ip \<noteq> [] \<or> fp \<noteq> []) then dropWhile isDigit (drop 1 r1) else r1)
      in if ip = [] \<and> fp = [] then None
         else (let ex = scanExponent r2
               in Some (of_nat (decValue (ip @ fp)) / 10 ^ length fp * pow10 (fst ex), snd ex)))"

definition scanDecimal :: "string \<Rightarrow> (num \<times> string) option" where
  "scanDecimal s =
     (let sign = fst (stripSign s); s1 = snd (stripSign s)
      in if take 8 s1 = ''Infinity''
         then Some (if sign < 0 then NegInf else PosInf, drop 8 s1)
         else (case scanUnsigned s1 of
                 None \<Rightarrow> None
               | Some (v, rest) \<Rightarrow> Some (Fin (of_int sign * v), rest)))"

definition parseFloat_str :: "string \<Rightarrow> num" where
  "parseFloat_str inputString =
     (case scanDecimal (dropWhile isWhiteSpace inputString) of
        None \<Rightarrow> NaN
      | Some (v, rest) \<Rightarrow> v)"

text \<open>\<^verbatim>\<open>parseFloat(String(x))\<close> gives a number back unchanged.\<close>

fun parseFloat :: "jsval \<Rightarrow> num" where
  "parseFloat JUndefined = NaN"
| "parseFloat JNull = NaN"
| "parseFloat (JStr s) = parseFloat_str s"
| "parseFloat (JNum x) = x"

text \<open>
  \<^verbatim>\<open>isNaN(string)\<close> converts with \<^verbatim>\<open>Number\<close>, which wants the whole string, trimmed on both
  sides, to be a literal: empty (zero), a signed decimal literal, or an unsigned
  \<^verbatim>\<open>0x\<close>, \<^verbatim>\<open>0o\<close> or \<^verbatim>\<open>0b\<close> integer.
\<close>

definition trim :: "string \<Rightarrow> string" where
  "trim s = rev (dropWhile isWhiteSpace (rev (dropWhile isWhiteSpace s)))"

definition isRadixLiteral :: "string \<Rightarrow> bool" where
  "isRadixLiteral t =
     (let body = drop 2 t in
      body \<noteq> [] \<and>
      ((hasHexPrefix t \<and> list_all isHexDigit body)
       \<or> ((take 2 t = ''0o'' \<or> take 2 t = ''0O'')
            \<and> list_all (\<lambda>c. isDigit c \<and> digitVal c < 8) body)
       \<or> ((take 2 t = ''0b'' \<or> take 2 t = ''0B'')
            \<and> list_all (\<lambda>c. isDigit c \<and> digitVal c < 2) body)))"

definition isNaN_str :: "string \<Rightarrow> bool" where
  "isNaN_str s =
     (let t = trim s
      in if t = [] then False
         else if isRadixLiteral t then False
         else (case scanDecimal t of
                 None \<Rightarrow> True
               | Some (v, rest) \<Rightarrow> rest \<noteq> []))"

subsection \<open>Truthiness and addition\<close>

text \<open>\<^verbatim>\<open>x || 0\<close> on a number: \<^verbatim>\<open>NaN\<close> and zero are falsy, everything else stays.\<close>

definition orZero_int :: "int option \<Rightarrow> int" where
  "orZero_int x = (case x of None \<Rightarrow> 0 | Some n \<Rightarrow> n)"

definition orZero :: "num \<Rightarrow> num" where
  "orZero x = (if x = NaN \<or> x = Fin 0 then Fin 0 else x)"

fun js_add :: "num \<Rightarrow> num \<Rightarrow> num" where
  "js_add NaN y = NaN"
| "js_add x NaN = NaN"
| "js_add (Fin a) (Fin b) = Fin (a + b)"
| "js_add (Fin a) y = y"
| "js_add x (Fin b) = x"
| "js_add PosInf PosInf = PosInf"
| "js_add NegInf NegInf = NegInf"
| "js_add PosInf NegInf = NaN"
| "js_add NegInf PosInf = NaN"

subsection \<open>\<^verbatim>\<open>toFixed(2)\<close>\<close>

text \<open>
  \<^verbatim>\<open>x.toFixed(2)\<close>: take the sign off, pick the integer \<open>n\<close> with \<open>n / 100\<close> nearest to
  \<open>x\<close> (the larger one on a tie), print \<open>n\<close> with at least three digits and put the
  point before the last two. (From \<open>10^21\<close> on JavaScript prints exponent notation
  instead; the model keeps the positional form, and the theorems on renderings say
  where that matters.)
\<close>

definition toFixed2 :: "rat \<Rightarrow> string" where
  "toFixed2 x =
     (let s = (if x < 0 then ''-'' else []);
          n = nat \<lfloor>\<bar>x\<bar> * 100 + 1 / 2\<rfloor>;
          m = digits n;
          m1 = (if length m \<le> 2 then replicate (3 - length m) (CHR ''0'') @ m else m);
          k = length m1
      in s @ take (k - 2) m1 @ ''.'' @ drop (k - 2) m1)"

fun toFixed2_num :: "num \<Rightarrow> string" where
  "toFixed2_num NaN = ''NaN''"
| "toFixed2_num PosInf = ''Infinity''"
| "toFixed2_num NegInf = ''-Infinity''"
| "toFixed2_num (Fin q) = toFixed2 q"

subsection \<open>Dates\<close>

text \<open>
  The API hands dates over as \<^verbatim>\<open>YYYY-MM-DD\<close> strings and the code keeps them as strings.
  \<^verbatim>\<open>new Date(string)\<close> on that form is midnight UTC of the day, in milliseconds since
  1970-01-01; the day number follows the proleptic Gregorian calendar. Any other string
  is an invalid date here (time value \<^verbatim>\<open>NaN\<close>, \<open>None\<close>); JavaScript accepts further
  forms, which the API does not produce.
\<close>

definition isLeapYear :: "int \<Rightarrow> bool" where
  "isLeapYear y = (y mod 4 = 0 \<and> (y mod 100 \<noteq> 0 \<or> y mod 400 = 0))"

definition daysInMonth :: "int \<Rightarrow> int \<Rightarrow> int" where
  "daysInMonth y m =
     (if m = 2 then (if isLeapYear y then 29 else 28)
      else if m = 4 \<or> m = 6 \<or> m = 9 \<or> m = 11 then 30 else 31)"

definition daysFromCivil :: "int \<Rightarrow> int \<Rightarrow> int \<Rightarrow> int" where
  "daysFromCivil y m d =
     (let y1 = (if m \<le> 2 then y - 1 else y);
          era = y1 div 400;
          yoe = y1 - era * 400;
          mp = (if m > 2 then m - 3 else m + 9);
          doy = (153 * mp + 2) div 5 + d - 1;
          doe = yoe * 365 + yoe div 4 - yoe div 100 + doy
      in era * 146097 + doe - 719468)"

definition msPerDay :: int where
  "msPerDay = 1000 * 60 * 60 * 24"

definition dateValue :: "string \<Rightarrow> int option" where
  "dateValue s =
     (case s of
        [y1, y2, y3, y4, h1, m1, m2, h2, d1, d2] \<Rightarrow>
          (let y = int (decValue [y1, y2, y3, y4]);
               m = int (decValue [m1, m2]);
               d = int (decValue [d1, d2])
           in if list_all isDigit [y1, y2, y3, y4, m1, m2, d1, d2]
                 \<and> h1 = CHR ''-'' \<and> h2 = CHR ''-''
                 \<and> 1 \<le> m \<and> m \<le> 12 \<and> 1 \<le> d \<and> d \<le> daysInMonth y m
              then Some (daysFromCivil y m d * msPerDay)
              else None)
      | _ \<Rightarrow> None)"

text \<open>
  The clock: \<^verbatim>\<open>new Date()\<close> as milliseconds since the epoch and
  \<^verbatim>\<open>new Date().getFullYear()\<close>, the year in the local time zone. One report run reads
  the clock once per campaign; the model takes one reading for the run.
\<close>

record clock =
  now :: int
  currentYear :: int

section \<open>The data of a report run\<close>

text \<open>
  A campaign's status is the API's enum number or, as \<^verbatim>\<open>formatStatus\<close> allows for, its
  name as a string.
\<close>

datatype status = StatusNum int | StatusStr string

text \<open>One row of the campaign query (\<^verbatim>\<open>campaignRow.campaign\<close>).\<close>

record campaignRow =
  campaign_id :: int
  campaign_name :: string
  start_date :: string
  end_date :: "string option"
  campaign_status :: status

text \<open>One row of the daily metrics query (\<^verbatim>\<open>row.segments.date\<close> and \<^verbatim>\<open>row.metrics\<close>).\<close>

record dailyRow =
  date :: string
  cost_micros :: jsval
  conversions :: jsval
  conversions_value :: jsval
  impressions :: jsval
  clicks :: jsval

record campaignInfo =
  id' :: int
  name :: string
  startDate :: string
  endDate :: "string option"
  status :: status
  isPaused :: bool

text \<open>
  The entry of \<^verbatim>\<open>campaignMap\<close>: \<^verbatim>\<open>{...campaignInfo, lastActiveDate, activeDays, ...}\<close>.
  \<open>activeDays\<close> is \<open>None\<close> when the computation gives \<^verbatim>\<open>NaN\<close>.
\<close>

record campaign = campaignInfo +
  lastActiveDate :: string
  activeDays :: "int option"
  totalCost :: int
  totalConversions :: num
  totalConversionsValue :: num
  totalImpressions :: int
  totalClicks :: int

text \<open>
  The output record; its fields carry the prefix \<open>r_\<close>. (The copy of the function that
  feeds the document store prints the campaign id with \<^verbatim>\<open>toString()\<close>; nothing below
  depends on the id's form.)
\<close>

record report =
  r_campaignId :: int
  r_campaignName :: string
  r_startDate :: string
  r_endDate :: string
  r_status :: string
  r_activeDuration :: string
  r_totalCost :: string
  r_dailyAvgCost :: string
  r_totalConversions :: string
  r_totalConversionsValue :: string
  r_totalImpressions :: int
  r_totalClicks :: int
  r_ctr :: string
  r_averageCpc :: string
  r_costPerDay :: string
  r_isPaused :: bool
  r_lastActiveDate :: string

datatype error = QueryFailed string

section \<open>\<^verbatim>\<open>getCampaignData\<close>\<close>

subsection \<open>Campaign info and the paused flag\<close>

text \<open>
  \<^verbatim>\<open>isPaused: parseInt(campaignRow.campaign.status) === 3\<close>. A number below \<open>10^21\<close>
  prints as its digits, so \<^verbatim>\<open>parseInt\<close> gives an integer back as it is.
\<close>

fun parseInt_status :: "status \<Rightarrow> int option" where
  "parseInt_status (StatusNum n) = Some n"
| "parseInt_status (StatusStr s) = parseInt_str s"

definition campaignInfo_of :: "campaignRow \<Rightarrow> campaignInfo" where
  "campaignInfo_of campaignRow =
     \<lparr> id' = campaign_id campaignRow,
       name = campaign_name campaignRow,
       startDate = start_date campaignRow,
       endDate = end_date campaignRow,
       status = campaign_status campaignRow,
       isPaused = (parseInt_status (campaign_status campaignRow) = Some 3) \<rparr>"

subsection \<open>Summing the daily rows\<close>

text \<open>
  The mutable locals of the \<^verbatim>\<open>forEach\<close> loop, as one record, and one turn of the loop.
\<close>

record tally =
  t_totalCost :: int
  t_totalConversions :: num
  t_totalConversionsValue :: num
  t_totalImpressions :: int
  t_totalClicks :: int
  t_lastActiveDate :: string

definition tally_init :: "string \<Rightarrow> tally" where
  "tally_init start =
     \<lparr> t_totalCost = 0, t_totalConversions = Fin 0, t_totalConversionsValue = Fin 0,
       t_totalImpressions = 0, t_totalClicks = 0, t_lastActiveDate = start \<rparr>"

definition row_cost :: "dailyRow \<Rightarrow> int" where
  "row_cost row = orZero_int (parseInt (cost_micros row))"

definition row_conversions :: "dailyRow \<Rightarrow> num" where
  "row_conversions row = orZero (parseFloat (conversions row))"

definition row_conversionsValue :: "dailyRow \<Rightarrow> num" where
  "row_conversionsValue row = orZero (parseFloat (conversions_value row))"

definition row_impressions :: "dailyRow \<Rightarrow> int" where
  "row_impressions row = orZero_int (parseInt (impressions row))"

definition row_clicks :: "dailyRow \<Rightarrow> int" where
  "row_clicks row = orZero_int (parseInt (clicks row))"

definition hasActivity :: "dailyRow \<Rightarrow> bool" where
  "hasActivity row = (row_cost row > 0 \<or> row_impressions row > 0 \<or> row_clicks row > 0)"

definition processRow :: "tally \<Rightarrow> dailyRow \<Rightarrow> tally" where
  "processRow t row =
     \<lparr> t_totalCost = t_totalCost t + row_cost row,
       t_totalConversions = js_add (t_totalConversions t) (row_conversions row),
       t_totalConversionsValue = js_add (t_totalConversionsValue t) (row_conversionsValue row),
       t_totalImpressions = t_totalImpressions t + row_impressions row,
       t_totalClicks = t_totalClicks t + row_clicks row,
       t_lastActiveDate = (if hasActivity row then date row else t_lastActiveDate t) \<rparr>"

definition aggregate :: "string \<Rightarrow> dailyRow list \<Rightarrow> tally" where
  "aggregate start metricsResult = foldl processRow (tally_init start) metricsResult"

subsection \<open>Active duration\<close>

text \<open>
  \<^verbatim>\<open>Math.ceil((endDateObj - startDateObj) / (1000 * 60 * 60 * 24)) + 1\<close>, where the end is
  the last active date for a paused campaign and the clock otherwise. An invalid date
  on either side makes the result \<^verbatim>\<open>NaN\<close>. The quotient is exact here; the double
  quotient has the same ceiling for every span below \<open>2^27\<close> days.
\<close>

definition calcActiveDays :: "clock \<Rightarrow> campaignInfo \<Rightarrow> string \<Rightarrow> int option" where
  "calcActiveDays clk campaignInfo lastActive =
     (let startDateObj = dateValue (startDate campaignInfo);
          endDateObj = (if isPaused campaignInfo then dateValue lastActive else Some (now clk))
      in case (startDateObj, endDateObj) of
           (Some s, Some e) \<Rightarrow> Some (\<lceil>(of_int (e - s) :: rat) / of_int msPerDay\<rceil> + 1)
         | _ \<Rightarrow> None)"

subsection \<open>One campaign: the \<^verbatim>\<open>try\<close> body and its \<^verbatim>\<open>catch\<close>\<close>

definition withMetrics :: "clock \<Rightarrow> campaignInfo \<Rightarrow> dailyRow list \<Rightarrow> campaign" where
  "withMetrics clk campaignInfo metricsResult =
     (let t = aggregate (startDate campaignInfo) metricsResult
      in campaignInfo.extend campaignInfo
           (campaign.fields (t_lastActiveDate t)
              (calcActiveDays clk campaignInfo (t_lastActiveDate t))
              (t_totalCost t) (t_totalConversions t) (t_totalConversionsValue t)
              (t_totalImpressions t) (t_totalClicks t)))"

definition zeroMetrics :: "campaignInfo \<Rightarrow> campaign" where
  "zeroMetrics campaignInfo =
     campaignInfo.extend campaignInfo
       (campaign.fields (startDate campaignInfo) (Some 1) 0 (Fin 0) (Fin 0) 0 0)"

text \<open>
  The metrics query is the external collaborator: it answers with rows or throws. The
  query text names the campaign id and the start date, so the model hands it the
  campaign info.
\<close>

type_synonym metricsQuery = "campaignInfo \<Rightarrow> error + dailyRow list"

definition processCampaign :: "clock \<Rightarrow> metricsQuery \<Rightarrow> campaignRow \<Rightarrow> campaign" where
  "processCampaign clk query campaignRow =
     (let campaignInfo = campaignInfo_of campaignRow
      in case query campaignInfo of
           Inr metricsResult \<Rightarrow> withMetrics clk campaignInfo metricsResult
         | Inl err \<Rightarrow> zeroMetrics campaignInfo)"

subsection \<open>\<^verbatim>\<open>campaignMap\<close>\<close>

text \<open>
  A JavaScript \<^verbatim>\<open>Map\<close> keeps keys in the order of their first insertion; setting a key
  that is present replaces the value where it stands.
\<close>

fun mapSet :: "'k \<Rightarrow> 'v \<Rightarrow> ('k \<times> 'v) list \<Rightarrow> ('k \<times> 'v) list" where
  "mapSet k v [] = [(k, v)]"
| "mapSet k v ((k', v') # m) = (if k' = k then (k, v) # m else (k', v') # mapSet k v m)"

definition mapValues :: "('k \<times> 'v) list \<Rightarrow> 'v list" where
  "mapValues m = map snd m"

definition collect :: "clock \<Rightarrow> metricsQuery \<Rightarrow> campaignRow list \<Rightarrow> (int \<times> campaign) list" where
  "collect clk query campaignInfoResult =
     foldl (\<lambda>campaignMap campaignRow.
              mapSet (campaign_id campaignRow) (processCampaign clk query campaignRow) campaignMap)
       [] campaignInfoResult"


subsection \<open>Formatting\<close>

definition splitFirst :: "char \<Rightarrow> string \<Rightarrow> string" where
  \<comment> \<open>\<^verbatim>\<open>s.split(c)[0]\<close>: the part before the first separator\<close>
  "splitFirst c s = takeWhile (\<lambda>x. x \<noteq> c) s"

definition endYear_of :: "string \<Rightarrow> int option" where
  \<comment> \<open>\<^verbatim>\<open>parseInt(endDate.split('-')[0])\<close>\<close>
  "endYear_of e = parseInt_str (splitFirst (CHR ''-'') e)"

definition formatEndDate :: "clock \<Rightarrow> string option \<Rightarrow> bool \<Rightarrow> string \<Rightarrow> string" where
  "formatEndDate clk endDate' isPaused' lastActiveDate' =
     (if isPaused' then ''Paused on '' @ lastActiveDate'
      else case endDate' of
             None \<Rightarrow> ''No end date''
           | Some e \<Rightarrow>
               if e = [] then ''No end date''
               else (case endYear_of e of
                       None \<Rightarrow> e
                     | Some endYear \<Rightarrow>
                         if endYear > currentYear clk + 10 then ''No end date'' else e))"

fun toString_status :: "status \<Rightarrow> string" where
  "toString_status (StatusNum n) = toString_int n"
| "toString_status (StatusStr s) = s"

fun toString_days :: "int option \<Rightarrow> string" where
  "toString_days None = ''NaN''"
| "toString_days (Some d) = toString_int d"

fun isNumeric :: "status \<Rightarrow> bool" where
  \<comment> \<open>\<^verbatim>\<open>typeof status === 'number' || !isNaN(status)\<close>\<close>
  "isNumeric (StatusNum n) = True"
| "isNumeric (StatusStr s) = (\<not> isNaN_str s)"

definition statusText :: "status \<Rightarrow> string" where
  "statusText status' =
     (if isNumeric status'
      then (let numericStatus = parseInt_status status'
            in if numericStatus = Some 2 then ''Active''
               else if numericStatus = Some 3 then ''Paused''
               else if numericStatus = Some 4 then ''Removed''
               else if numericStatus = Some 5 then ''Draft''
               else if numericStatus = Some 6 then ''Ended''
               else ''Unknown ('' @ toString_status status' @ '')'')
      else (if status' = StatusStr ''ENABLED'' then ''Active''
            else if status' = StatusStr ''PAUSED'' then ''Paused''
            else if status' = StatusStr ''REMOVED'' then ''Removed''
            else if status' = StatusStr ''DRAFT'' then ''Draft''
            else if status' = StatusStr ''ENDED'' then ''Ended''
            else if status' = StatusStr ''UNKNOWN'' then ''Unknown''
            else toString_status status'))"

definition formatStatus :: "status \<Rightarrow> bool \<Rightarrow> int option \<Rightarrow> string" where
  "formatStatus status' isPaused' activeDays' =
     (if isPaused'
      then statusText status' @ '' (Ran for '' @ toString_days activeDays' @ '' days)''
      else statusText status')"

definition costInCurrency :: "campaign \<Rightarrow> rat" where
  "costInCurrency c = of_int (totalCost c) / 1000000"

definition averageCpc :: "campaign \<Rightarrow> rat" where
  "averageCpc c =
     (if totalClicks c > 0 then costInCurrency c / of_int (totalClicks c) else 0)"

definition dailyAvgCost :: "campaign \<Rightarrow> rat" where
  "dailyAvgCost c =
     (case activeDays c of
        Some d \<Rightarrow> if d > 0 then costInCurrency c / of_int d else 0
      | None \<Rightarrow> 0)"

definition formatCtr :: "campaign \<Rightarrow> string" where
  "formatCtr c =
     (if totalImpressions c > 0
      then toFixed2 (of_int (totalClicks c) / of_int (totalImpressions c) * 100) @ ''%''
      else ''0%'')"

definition formatCampaign :: "clock \<Rightarrow> campaign \<Rightarrow> report" where
  "formatCampaign clk c =
     \<lparr> r_campaignId = id' c,
       r_campaignName = name c,
       r_startDate = startDate c,
       r_endDate = formatEndDate clk (endDate c) (isPaused c) (lastActiveDate c),
       r_status = formatStatus (status c) (isPaused c) (activeDays c),
       r_activeDuration = toString_days (activeDays c) @ '' days'',
       r_totalCost = toFixed2 (costInCurrency c),
       r_dailyAvgCost = toFixed2 (dailyAvgCost c),
       r_totalConversions = toFixed2_num (totalConversions c),
       r_totalConversionsValue = toFixed2_num (totalConversionsValue c),
       r_totalImpressions = totalImpressions c,
       r_totalClicks = totalClicks c,
       r_ctr = formatCtr c,
       r_averageCpc = toFixed2 (averageCpc c),
       r_costPerDay = toFixed2 (dailyAvgCost c),
       r_isPaused = isPaused c,
       r_lastActiveDate = lastActiveDate c \<rparr>"

subsection \<open>The whole run\<close>

text \<open>
  The campaign query failing is caught by the outer \<^verbatim>\<open>try\<close>, logged and thrown again.
  Log output is not part of the model.
\<close>

definition getCampaignData ::
  "clock \<Rightarrow> (error + campaignRow list) \<Rightarrow> metricsQuery \<Rightarrow> error + report list" where
  "getCampaignData clk campaignInfoQuery query =
     (case campaignInfoQuery of
        Inl err \<Rightarrow> Inl err
      | Inr campaignInfoResult \<Rightarrow>
          (let campaigns = mapValues (collect clk query campaignInfoResult)
           in Inr (map (formatCampaign clk) campaigns)))"

section \<open>Notions of the specification\<close>

text \<open>
  The two status tables in the specification's words, to compare \<open>statusText\<close> with.
\<close>

definition spec_codeLabel :: "int \<Rightarrow> string option" where
  "spec_codeLabel n =
     (if n = 2 then Some ''Active'' else if n = 3 then Some ''Paused''
      else if n = 4 then Some ''Removed'' else if n = 5 then Some ''Draft''
      else if n = 6 then Some ''Ended'' else None)"

definition spec_nameLabel :: "string \<Rightarrow> string option" where
  "spec_nameLabel s =
     (if s = ''ENABLED'' then Some ''Active'' else if s = ''PAUSED'' then Some ''Paused''
      else if s = ''REMOVED'' then Some ''Removed'' else if s = ''DRAFT'' then Some ''Draft''
      else if s = ''ENDED'' then Some ''Ended'' else if s = ''UNKNOWN'' then Some ''Unknown''
      else None)"

text \<open>
  A rendering with exactly two decimal places: an optional minus sign, at least one
  digit, the point, two digits.
\<close>

definition twoDecimals :: "string \<Rightarrow> bool" where
  "twoDecimals s =
     (let body = (if take 1 s = ''-'' then drop 1 s else s); n = length body
      in 4 \<le> n \<and> list_all isDigit (take (n - 3) body) \<and> body ! (n - 3) = CHR ''.''
         \<and> list_all isDigit (drop (n - 2) body))"

text \<open>The range in which \<^verbatim>\<open>toFixed\<close> prints positionally.\<close>

definition positional :: "rat \<Rightarrow> bool" where
  "positional x = (\<bar>x\<bar> < 10 ^ 21)"

text \<open>A number that is not negative (and not \<^verbatim>\<open>NaN\<close>).\<close>

fun nonneg :: "num \<Rightarrow> bool" where
  "nonneg (Fin q) = (0 \<le> q)"
| "nonneg PosInf = True"
| "nonneg NegInf = False"
| "nonneg NaN = False"





section \<open>Sample data\<close>

text \<open>The clock reads 2025-06-15 15:06:40 UTC.\<close>

definition ex_clock :: clock where
  "ex_clock = \<lparr> now = 1750000000000, currentYear = 2025 \<rparr>"

definition ex_day :: "string \<Rightarrow> int \<Rightarrow> int \<Rightarrow> int \<Rightarrow> dailyRow" where
  "ex_day d cost imps clks =
     \<lparr> date = d, cost_micros = JNum (Fin (of_int cost)), conversions = JNum (Fin (3 / 2)),
       conversions_value = JUndefined, impressions = JNum (Fin (of_int imps)),
       clicks = JStr (toString_int clks) \<rparr>"

definition ex_campaign :: "int \<Rightarrow> string \<Rightarrow> status \<Rightarrow> campaignRow" where
  "ex_campaign i start st =
     \<lparr> campaign_id = i, campaign_name = ''Brand'', start_date = start,
       end_date = Some ''2037-12-30'', campaign_status = st \<rparr>"

text \<open>A metrics query that fails for campaign 3 and answers two days for the others.\<close>

definition ex_query :: metricsQuery where
  "ex_query ci =
     (if id' ci = 3 then Inl (QueryFailed ''timeout'')
      else Inr [ex_day ''2024-01-05'' 2000000 100 4, ex_day ''2024-01-10'' 3000000 100 6])"








text \<open>
  A query with impressions but no cost: campaign 1 gets no clicks either, the others
  get ten clicks.
\<close>

definition ex_free :: metricsQuery where
  "ex_free ci = Inr [ex_day ''2024-01-05'' 0 200 (if id' ci = 1 then 0 else 10)]"

text \<open>What the run prints for a paused campaign whose query answers.\<close>

definition ex_report :: report where
  "ex_report =
     \<lparr> r_campaignId = 1, r_campaignName = ''Brand'', r_startDate = ''2024-01-01'',
       r_endDate = ''Paused on 2024-01-10'', r_status = ''Paused (Ran for 10 days)'',
       r_activeDuration = ''10 days'', r_totalCost = ''5.00'', r_dailyAvgCost = ''0.50'',
       r_totalConversions = ''3.00'', r_totalConversionsValue = ''0.00'',
       r_totalImpressions = 200, r_totalClicks = 10, r_ctr = ''5.00%'',
       r_averageCpc = ''0.50'', r_costPerDay = ''0.50'', r_isPaused = True,
       r_lastActiveDate = ''2024-01-10'' \<rparr>"

text \<open>What the run prints under \<open>ex_free\<close>, and for a campaign whose query fails.\<close>

definition ex_noClicks :: report where
  "ex_noClicks =
     \<lparr> r_campaignId = 1, r_campaignName = ''Brand'', r_startDate = ''2024-01-01'',
       r_endDate = ''No end date'', r_status = ''Active'', r_activeDuration = ''533 days'',
       r_totalCost = ''0.00'', r_dailyAvgCost = ''0.00'', r_totalConversions = ''1.50'',
       r_totalConversionsValue = ''0.00'', r_totalImpressions = 200, r_totalClicks = 0,
       r_ctr = ''0.00%'', r_averageCpc = ''0.00'', r_costPerDay = ''0.00'',
       r_isPaused = False, r_lastActiveDate = ''2024-01-05'' \<rparr>"

definition ex_noCost :: report where
  "ex_noCost =
     \<lparr> r_campaignId = 2, r_campaignName = ''Brand'', r_startDate = ''2024-01-01'',
       r_endDate = ''No end date'', r_status = ''Active'', r_activeDuration = ''533 days'',
       r_totalCost = ''0.00'', r_dailyAvgCost = ''0.00'', r_totalConversions = ''1.50'',
       r_totalConversionsValue = ''0.00'', r_totalImpressions = 200, r_totalClicks = 10,
       r_ctr = ''5.00%'', r_averageCpc = ''0.00'', r_costPerDay = ''0.00'',
       r_isPaused = False, r_lastActiveDate = ''2024-01-05'' \<rparr>"

definition ex_fallback :: report where
  "ex_fallback =
     \<lparr> r_campaignId = 3, r_campaignName = ''Brand'', r_startDate = ''2024-01-01'',
       r_endDate = ''Paused on 2024-01-01'', r_status = ''Paused (Ran for 1 days)'',
       r_activeDuration = ''1 days'', r_totalCost = ''0.00'', r_dailyAvgCost = ''0.00'',
       r_totalConversions = ''0.00'', r_totalConversionsValue = ''0.00'',
       r_totalImpressions = 0, r_totalClicks = 0, r_ctr = ''0%'', r_averageCpc = ''0.00'',
       r_costPerDay = ''0.00'', r_isPaused = True, r_lastActiveDate = ''2024-01-01'' \<rparr>"

text \<open>The campaign-map entry behind \<open>ex_report\<close>.\<close>

definition ex_entry :: campaign where
  "ex_entry =
     \<lparr> id' = 1, name = ''Brand'', startDate = ''2024-01-01'', endDate = Some ''2037-12-30'',
       status = StatusNum 3, isPaused = True, lastActiveDate = ''2024-01-10'',
       activeDays = Some 10, totalCost = 5000000, totalConversions = Fin 3,
       totalConversionsValue = Fin 0, totalImpressions = 200, totalClicks = 10 \<rparr>"

section \<open>Digit strings and \<^verbatim>\<open>parseInt\<close>\<close>

lemma isDigit_digitChar: "n < 10 \<Longrightarrow> isDigit (digitChar n)"
  by (simp add: isDigit_def digitChar_def)

lemma digitVal_digitChar: "n < 10 \<Longrightarrow> digitVal (digitChar n) = n"
  by (simp add: digitVal_def digitChar_def)

lemma digits_all: "list_all isDigit (digits n)"
proof (induction n rule: digits.induct)
  case (1 n)
  show ?case
  proof (cases "n < 10")
    case True
    then show ?thesis by (subst digits.simps) (simp add: isDigit_digitChar)
  next
    case False
    with 1 show ?thesis by (subst digits.simps) (simp add: isDigit_digitChar)
  qed
qed

lemma digits_ne: "digits n \<noteq> []"
  by (subst digits.simps) simp

lemma decValue_snoc: "decValue (xs @ [c]) = 10 * decValue xs + digitVal c"
  by (simp add: decValue_def)

lemma decValue_digits: "decValue (digits n) = n"
proof (induction n rule: digits.induct)
  case (1 n)
  show ?case
  proof (cases "n < 10")
    case True
    then show ?thesis by (subst digits.simps) (simp add: decValue_def digitVal_digitChar)
  next
    case False
    with 1 show ?thesis
      by (subst digits.simps) (simp add: decValue_snoc digitVal_digitChar)
  qed
qed

lemma isDigit_not_special:
  assumes "isDigit c"
  shows "\<not> isWhiteSpace c" "c \<noteq> CHR ''-''" "c \<noteq> CHR ''+''" "c \<noteq> CHR ''x''" "c \<noteq> CHR ''X''"
    "c \<noteq> CHR ''.''" "c \<noteq> CHR ''e''" "c \<noteq> CHR ''E''" "c \<noteq> CHR ''I''"
  using assms by (auto simp: isDigit_def isWhiteSpace_def)

lemma takeWhile_all: "list_all P xs \<Longrightarrow> takeWhile P xs = xs"
  by (induction xs) auto

lemma dropWhile_all: "list_all P xs \<Longrightarrow> dropWhile P xs = []"
  by (induction xs) auto

lemma digits_no_hex_prefix:
  assumes "list_all isDigit ds"
  shows "\<not> hasHexPrefix ds"
proof (cases ds)
  case Nil
  then show ?thesis by (simp add: hasHexPrefix_def)
next
  case (Cons a r)
  show ?thesis
  proof (cases r)
    case Nil
    with Cons show ?thesis by (simp add: hasHexPrefix_def)
  next
    case (Cons b r')
    with \<open>ds = a # r\<close> assms have "isDigit b" by simp
    then have "b \<noteq> CHR ''x''" "b \<noteq> CHR ''X''" by (simp_all add: isDigit_not_special)
    with Cons \<open>ds = a # r\<close> show ?thesis by (simp add: hasHexPrefix_def)
  qed
qed

lemma stripSign_digits:
  assumes "list_all isDigit ds"
  shows "stripSign ds = (1, ds)"
  using assms by (cases ds) (auto simp: stripSign_def isDigit_not_special)

lemma dropWhile_ws_digits:
  assumes "list_all isDigit ds"
  shows "dropWhile isWhiteSpace ds = ds"
  using assms by (cases ds) (auto simp: isDigit_not_special)

lemma parseInt_str_digits:
  assumes "ds \<noteq> []" "list_all isDigit ds"
  shows "parseInt_str ds = Some (int (decValue ds))"
  using assms
  by (simp add: parseInt_str_def dropWhile_ws_digits stripSign_digits digits_no_hex_prefix
      takeWhile_all)

lemma parseInt_str_neg_digits:
  assumes "ds \<noteq> []" "list_all isDigit ds"
  shows "parseInt_str (CHR ''-'' # ds) = Some (- int (decValue ds))"
  using assms
  by (simp add: parseInt_str_def stripSign_def isWhiteSpace_def digits_no_hex_prefix
      takeWhile_all)

lemma parseInt_toString_int: "parseInt_str (toString_int i) = Some i"
  by (simp add: toString_int_def parseInt_str_digits parseInt_str_neg_digits digits_ne digits_all
      decValue_digits)

section \<open>End-date label\<close>

lemma splitFirst_digits:
  assumes "list_all isDigit ys"
  shows "splitFirst (CHR ''-'') (ys @ CHR ''-'' # rest) = ys"
proof -
  have "\<And>x. x \<in> set ys \<Longrightarrow> x \<noteq> CHR ''-''"
    using assms by (auto simp: list_all_iff isDigit_not_special)
  then show ?thesis by (simp add: splitFirst_def takeWhile_append2)
qed

lemma endYear_of_digits:
  assumes "ys \<noteq> []" "list_all isDigit ys"
  shows "endYear_of (ys @ CHR ''-'' # rest) = Some (int (decValue ys))"
  using assms by (simp add: endYear_of_def splitFirst_digits parseInt_str_digits)

text \<open>
  C6. The end-date label is \<open>Paused on\<close> followed by the last active date for a paused
  campaign, whatever the end date; otherwise \<open>No end date\<close> when the end date is absent
  (or the empty string, which the code treats alike); otherwise \<open>No end date\<close> when the
  year of the end date is beyond the current year plus ten; otherwise the end date as
  it is. The year is what \<^verbatim>\<open>parseInt\<close> reads before the first hyphen: for a date that
  starts with digits and a hyphen, the number those digits spell.
\<close>

theorem formatEndDate_label:
  "formatEndDate clk e True l = ''Paused on '' @ l
   \<and> formatEndDate clk None False l = ''No end date''
   \<and> formatEndDate clk (Some []) False l = ''No end date''
   \<and> (d \<noteq> [] \<longrightarrow>
        formatEndDate clk (Some d) False l =
          (if \<exists>y. endYear_of d = Some y \<and> currentYear clk + 10 < y then ''No end date'' else d))
   \<and> (ys \<noteq> [] \<and> list_all isDigit ys \<longrightarrow>
        endYear_of (ys @ CHR ''-'' # rest) = Some (int (decValue ys)))"
  by (auto simp: formatEndDate_def endYear_of_digits split: option.splits)

text \<open>The scenario of the specification: end date 2037-12-30 seen from 2025.\<close>

theorem formatEndDate_label_witness:
  "formatEndDate ex_clock (Some ''2037-12-30'') False ''2024-01-10'' = ''No end date''
   \<and> endYear_of (''2037'' @ CHR ''-'' # ''12-30'') = Some 2037
   \<and> ''2037-12-30'' \<noteq> [] \<and> list_all isDigit ''2037''"
  using formatEndDate_label [of ex_clock None "''2024-01-10''" "''2037-12-30''" "''2037''" "''12-30''"]
  by (simp add: ex_clock_def decValue_def digitVal_def isDigit_def)

section \<open>A sample run\<close>

lemma ex_paused_run:
  "getCampaignData ex_clock (Inr [ex_campaign 1 ''2024-01-01'' (StatusNum 3)]) ex_query
     = Inr [ex_report]"
  by code_simp

section \<open>Daily average cost and cost per day\<close>

lemma getCampaignData_Inr:
  "getCampaignData clk (Inr rows) query
     = Inr (map (formatCampaign clk) (mapValues (collect clk query rows)))"
  by (simp add: getCampaignData_def)



section \<open>The paused flag\<close>

text \<open>
  C4. The paused flag is \<^verbatim>\<open>parseInt(status) === 3\<close>. It is set for the number 3 and for
  the string \<open>3\<close>. For the canonical name \<open>PAUSED\<close> it is not set, although
  \<open>formatStatus\<close> reads that same name as a paused campaign (label \<open>Paused\<close>).
\<close>

theorem isPaused_on_three_forms:
  "isPaused (campaignInfo_of (ex_campaign i start (StatusNum 3)))
   \<and> isPaused (campaignInfo_of (ex_campaign i start (StatusStr ''3'')))
   \<and> \<not> isPaused (campaignInfo_of (ex_campaign i start (StatusStr ''PAUSED'')))
   \<and> statusText (StatusStr ''PAUSED'') = ''Paused''"
proof -
  have "parseInt_str ''3'' = Some 3" by code_simp
  moreover have "parseInt_str ''PAUSED'' = None" by code_simp
  moreover have "isNaN_str ''PAUSED''" by code_simp
  ultimately show ?thesis
    by (simp add: campaignInfo_of_def ex_campaign_def statusText_def)
qed

section \<open>Aggregation and the order of the rows\<close>




















section \<open>Active days\<close>




lemma zeroMetrics_fields:
  "lastActiveDate (zeroMetrics ci) = startDate ci"
  "activeDays (zeroMetrics ci) = Some 1"
  "totalCost (zeroMetrics ci) = 0"
  "totalConversions (zeroMetrics ci) = Fin 0"
  "totalConversionsValue (zeroMetrics ci) = Fin 0"
  "totalImpressions (zeroMetrics ci) = 0"
  "totalClicks (zeroMetrics ci) = 0"
  "isPaused (zeroMetrics ci) = isPaused ci"
  "startDate (zeroMetrics ci) = startDate ci"
  "id' (zeroMetrics ci) = id' ci"
  by (simp_all add: zeroMetrics_def campaignInfo.defs campaign.defs)


lemma processCampaign_Inl:
  "query (campaignInfo_of row) = Inl err \<Longrightarrow>
     processCampaign clk query row = zeroMetrics (campaignInfo_of row)"
  by (simp add: processCampaign_def)

lemma processCampaign_Inr:
  "query (campaignInfo_of row) = Inr rows \<Longrightarrow>
     processCampaign clk query row = withMetrics clk (campaignInfo_of row) rows"
  by (simp add: processCampaign_def)







section \<open>Rates that are zero\<close>

lemma ex_free_run:
  "getCampaignData ex_clock
     (Inr [ex_campaign 1 ''2024-01-01'' (StatusNum 2), ex_campaign 2 ''2024-01-01'' (StatusNum 2)])
     ex_free = Inr [ex_noClicks, ex_noCost]"
  by code_simp

lemma ex_fallback_run:
  "getCampaignData ex_clock (Inr [ex_campaign 3 ''2024-01-01'' (StatusNum 3)]) ex_query
     = Inr [ex_fallback]"
  by code_simp

lemma parseFloat_zero:
  "parseFloat_str ''0%'' = Fin 0" "parseFloat_str ''0.00%'' = Fin 0"
  "parseFloat_str ''0.00'' = Fin 0"
  by code_simp+

lemma toFixed2_zero: "toFixed2 0 = ''0.00''"
  by code_simp

lemma out_is_formatted:
  assumes "getCampaignData clk (Inr rows) query = Inr out" and "r \<in> set out"
  obtains c where "c \<in> set (mapValues (collect clk query rows))" and "r = formatCampaign clk c"
  using assms by (auto simp: getCampaignData_Inr)

text \<open>
  C3 (as amended). In every record that \<open>getCampaignData\<close> returns, the click-through
  rate is 0 (the text \<open>0%\<close>) whenever the total of impressions is 0, and the average
  cost per click is 0 (the text \<open>0.00\<close>) whenever the total of clicks is 0. The value
  of a rendered field is what \<^verbatim>\<open>parseFloat\<close> reads from it.
\<close>

theorem zero_rates:
  assumes "getCampaignData clk (Inr rows) query = Inr out" and "r \<in> set out"
  shows "(r_totalImpressions r = 0 \<longrightarrow> r_ctr r = ''0%'' \<and> parseFloat_str (r_ctr r) = Fin 0)
    \<and> (r_totalClicks r = 0 \<longrightarrow>
          r_averageCpc r = ''0.00'' \<and> parseFloat_str (r_averageCpc r) = Fin 0)"
proof -
  from assms obtain c where r: "r = formatCampaign clk c" by (rule out_is_formatted)
  show ?thesis
    by (simp add: r formatCampaign_def formatCtr_def averageCpc_def toFixed2_zero parseFloat_zero)
qed

text \<open>
  C3 as stated fails in the other direction: 200 impressions without a click give the
  rate \<open>0.00%\<close>, which is 0, and ten clicks without cost give the average cost per
  click \<open>0.00\<close>.
\<close>

theorem zero_rates_counterexample:
  "getCampaignData ex_clock
     (Inr [ex_campaign 1 ''2024-01-01'' (StatusNum 2), ex_campaign 2 ''2024-01-01'' (StatusNum 2)])
     ex_free = Inr [ex_noClicks, ex_noCost]
   \<and> parseFloat_str (r_ctr ex_noClicks) = Fin 0 \<and> r_totalImpressions ex_noClicks = 200
   \<and> parseFloat_str (r_averageCpc ex_noCost) = Fin 0 \<and> r_totalClicks ex_noCost = 10"
  by (simp add: ex_free_run) (simp add: ex_noClicks_def ex_noCost_def parseFloat_zero)

theorem zero_rates_witness:
  "getCampaignData ex_clock (Inr [ex_campaign 3 ''2024-01-01'' (StatusNum 3)]) ex_query
     = Inr [ex_fallback]
   \<and> ex_fallback \<in> set [ex_fallback]
   \<and> r_totalImpressions ex_fallback = 0 \<and> r_ctr ex_fallback = ''0%''
   \<and> r_totalClicks ex_fallback = 0 \<and> r_averageCpc ex_fallback = ''0.00''"
proof -
  have z: "r_totalImpressions ex_fallback = 0" "r_totalClicks ex_fallback = 0"
    by (simp_all add: ex_fallback_def)
  show ?thesis
    using zero_rates [OF ex_fallback_run, of ex_fallback] ex_fallback_run z by simp
qed

section \<open>Status label\<close>

lemma scanExponent_Nil: "scanExponent [] = (0, [])"
  by (simp add: scanExponent_def)

lemma scanUnsigned_digits:
  assumes "ds \<noteq> []" "list_all isDigit ds"
  shows "scanUnsigned ds = Some (of_nat (decValue ds), [])"
  using assms
  by (simp add: scanUnsigned_def takeWhile_all dropWhile_all scanExponent_Nil pow10_def)

lemma digits_not_Infinity:
  assumes "ds \<noteq> []" "list_all isDigit ds"
  shows "take 8 ds \<noteq> ''Infinity''"
  using assms by (cases ds) (auto simp: isDigit_not_special)

lemma scanDecimal_digits:
  assumes "ds \<noteq> []" "list_all isDigit ds"
  shows "scanDecimal ds = Some (Fin (of_nat (decValue ds)), [])"
  using assms
  by (simp add: scanDecimal_def stripSign_digits digits_not_Infinity scanUnsigned_digits)

lemma scanDecimal_neg_digits:
  assumes "ds \<noteq> []" "list_all isDigit ds"
  shows "scanDecimal (CHR ''-'' # ds) = Some (Fin (- of_nat (decValue ds)), [])"
  using assms
  by (simp add: scanDecimal_def stripSign_def digits_not_Infinity scanUnsigned_digits)

lemma dropWhile_hd: "xs \<noteq> [] \<Longrightarrow> \<not> P (hd xs) \<Longrightarrow> dropWhile P xs = xs"
  by (cases xs) simp_all

lemma trim_id:
  assumes "s \<noteq> []" "\<not> isWhiteSpace (hd s)" "\<not> isWhiteSpace (last s)"
  shows "trim s = s"
proof -
  have "dropWhile isWhiteSpace s = s" using assms by (simp add: dropWhile_hd)
  moreover have "dropWhile isWhiteSpace (rev s) = rev s"
    using assms by (simp add: dropWhile_hd hd_rev)
  ultimately show ?thesis by (simp add: trim_def)
qed

lemma trim_digits:
  assumes "ds \<noteq> []" "list_all isDigit ds"
  shows "trim ds = ds" "trim (CHR ''-'' # ds) = CHR ''-'' # ds"
proof -
  have l: "\<not> isWhiteSpace (last ds)"
    using assms by (simp add: isDigit_not_special list_all_iff)
  have h: "\<not> isWhiteSpace (hd ds)"
    using assms by (simp add: isDigit_not_special list_all_iff)
  show "trim ds = ds" using assms h l by (simp add: trim_id)
  have "\<not> isWhiteSpace (CHR ''-'')" by (simp add: isWhiteSpace_def)
  then show "trim (CHR ''-'' # ds) = CHR ''-'' # ds"
    using assms l by (simp add: trim_id)
qed

lemma isNaN_str_digits:
  assumes "ds \<noteq> []" "list_all isDigit ds"
  shows "\<not> isNaN_str ds" "\<not> isNaN_str (CHR ''-'' # ds)"
  using assms
  by (simp_all add: isNaN_str_def trim_digits scanDecimal_digits scanDecimal_neg_digits)

lemma isNaN_toString_int: "\<not> isNaN_str (toString_int i)"
  by (simp add: toString_int_def isNaN_str_digits digits_ne digits_all)

lemma statusText_StatusNum:
  "statusText (StatusNum n)
     = (case spec_codeLabel n of
          Some l \<Rightarrow> l
        | None \<Rightarrow> ''Unknown ('' @ toString_int n @ '')'')"
  by (simp add: statusText_def spec_codeLabel_def)

lemma statusText_numeric_string:
  assumes "\<not> isNaN_str s"
  shows "statusText (StatusStr s)
     = (case parseInt_str s of
          None \<Rightarrow> ''Unknown ('' @ s @ '')''
        | Some n \<Rightarrow> (case spec_codeLabel n of
                       Some l \<Rightarrow> l
                     | None \<Rightarrow> ''Unknown ('' @ s @ '')''))"
  using assms by (simp add: statusText_def spec_codeLabel_def split: option.splits)

lemma statusText_name:
  assumes "isNaN_str s"
  shows "statusText (StatusStr s) = (case spec_nameLabel s of Some l \<Rightarrow> l | None \<Rightarrow> s)"
  using assms by (simp add: statusText_def spec_nameLabel_def)

lemma statusText_toString_int:
  "statusText (StatusStr (toString_int n)) = statusText (StatusNum n)"
  by (simp add: statusText_numeric_string isNaN_toString_int parseInt_toString_int
      statusText_StatusNum)

text \<open>
  C5 (as amended). A number is mapped through the table 2 Active, 3 Paused, 4 Removed,
  5 Draft, 6 Ended, and a number outside the table is rendered as \<open>Unknown (n)\<close>; the
  decimal string of a number gets the label of that number. Any string that \<^verbatim>\<open>Number\<close>
  accepts is numeric: it is mapped through the same table by what \<^verbatim>\<open>parseInt\<close> reads
  from it, and is rendered as \<open>Unknown (s)\<close> when that is outside the table. Any other
  string is mapped through the table of names ENABLED, PAUSED, REMOVED, DRAFT, ENDED,
  UNKNOWN, and a name outside that table is rendered as the string itself. For a paused
  campaign the suffix \<open> (Ran for N days)\<close> is appended.
\<close>

theorem formatStatus_tables:
  "statusText (StatusNum n)
     = (case spec_codeLabel n of
          Some l \<Rightarrow> l
        | None \<Rightarrow> ''Unknown ('' @ toString_int n @ '')'')
   \<and> statusText (StatusStr (toString_int n)) = statusText (StatusNum n)
   \<and> (\<not> isNaN_str s \<longrightarrow>
        statusText (StatusStr s)
          = (case parseInt_str s of
               None \<Rightarrow> ''Unknown ('' @ s @ '')''
             | Some k \<Rightarrow> (case spec_codeLabel k of
                            Some l \<Rightarrow> l
                          | None \<Rightarrow> ''Unknown ('' @ s @ '')'')))
   \<and> (isNaN_str s \<longrightarrow>
        statusText (StatusStr s) = (case spec_nameLabel s of Some l \<Rightarrow> l | None \<Rightarrow> s))
   \<and> formatStatus st True days
        = statusText st @ '' (Ran for '' @ toString_days days @ '' days)''
   \<and> formatStatus st False days = statusText st"
  using statusText_StatusNum [of n] statusText_toString_int [of n]
    statusText_numeric_string [of s] statusText_name [of s]
  by (simp add: formatStatus_def)

text \<open>
  C5 as stated fails for a name outside the table: the status \<open>PENDING\<close> is rendered
  as \<open>PENDING\<close>, not as \<open>Unknown (PENDING)\<close>.
\<close>

theorem formatStatus_unmapped_name_counterexample:
  "isNaN_str ''PENDING'' \<and> spec_nameLabel ''PENDING'' = None
   \<and> formatStatus (StatusStr ''PENDING'') False (Some 10) = ''PENDING''
   \<and> formatStatus (StatusStr ''PENDING'') False (Some 10) \<noteq> ''Unknown (PENDING)''"
  by code_simp

theorem formatStatus_tables_witness:
  "\<not> isNaN_str ''3'' \<and> statusText (StatusStr ''3'') = ''Paused''
   \<and> isNaN_str ''ENABLED'' \<and> statusText (StatusStr ''ENABLED'') = ''Active''
   \<and> statusText (StatusNum 7) = ''Unknown (7)''
   \<and> formatStatus (StatusNum 3) True (Some 10) = ''Paused (Ran for 10 days)''"
proof -
  have a: "\<not> isNaN_str ''3''" by code_simp
  have b: "isNaN_str ''ENABLED''" by code_simp
  have c: "parseInt_str ''3'' = Some 3" by code_simp
  have d: "toString_int 7 = ''7''" "toString_int 10 = ''10''" by code_simp+
  show ?thesis
    using formatStatus_tables [of 7 "''3''" "StatusNum 3" "Some 10"]
      formatStatus_tables [of 3 "''ENABLED''" "StatusNum 3" "Some 10"] a b
    by (simp add: c d spec_codeLabel_def spec_nameLabel_def)
qed

section \<open>A failing metrics query\<close>










section \<open>Defensive parsing and the sign of the totals\<close>

lemma ex_entry_run:
  "processCampaign ex_clock ex_query (ex_campaign 1 ''2024-01-01'' (StatusNum 3)) = ex_entry"
  by code_simp










lemma nonneg_not_NaN: "nonneg x \<Longrightarrow> x \<noteq> NaN"
  by (cases x) simp_all









section \<open>Two decimal places\<close>

lemma twoDecimals_shape:
  assumes "A \<noteq> []" "list_all isDigit A" "list_all isDigit B" "length B = 2"
  shows "twoDecimals (A @ CHR ''.'' # B)" and "twoDecimals (CHR ''-'' # A @ CHR ''.'' # B)"
proof -
  have hd: "take 1 (A @ CHR ''.'' # B) \<noteq> ''-''"
    using assms(1,2) by (cases A) (auto simp: isDigit_not_special)
  have len: "length (A @ CHR ''.'' # B) = length A + 3" using assms(4) by simp
  have A: "Suc 0 \<le> length A" using assms(1) by (cases A) simp_all
  have body: "4 \<le> length (A @ CHR ''.'' # B)
      \<and> list_all isDigit (take (length (A @ CHR ''.'' # B) - 3) (A @ CHR ''.'' # B))
      \<and> (A @ CHR ''.'' # B) ! (length (A @ CHR ''.'' # B) - 3) = CHR ''.''
      \<and> list_all isDigit (drop (length (A @ CHR ''.'' # B) - 2) (A @ CHR ''.'' # B))"
    unfolding len using assms A by (simp add: nth_append)
  show "twoDecimals (A @ CHR ''.'' # B)"
    using body hd by (simp add: twoDecimals_def Let_def)
  show "twoDecimals (CHR ''-'' # A @ CHR ''.'' # B)"
    using body by (simp add: twoDecimals_def Let_def)
qed

lemma twoDecimals_toFixed2: "twoDecimals (toFixed2 x)"
proof -
  define m where "m = digits (nat \<lfloor>\<bar>x\<bar> * 100 + 1 / 2\<rfloor>)"
  define m1 where "m1 = (if length m \<le> 2 then replicate (3 - length m) (CHR ''0'') @ m else m)"
  have zero: "isDigit (CHR ''0'')" by (simp add: isDigit_def)
  have dig: "list_all isDigit m1"
    using digits_all [of "nat \<lfloor>\<bar>x\<bar> * 100 + 1 / 2\<rfloor>"] zero
    by (simp add: m1_def m_def list_all_iff)
  have len: "3 \<le> length m1"
    by (simp add: m1_def)
  define A where "A = take (length m1 - 2) m1"
  define B where "B = drop (length m1 - 2) m1"
  have A: "A \<noteq> []" "list_all isDigit A"
    using len dig by (auto simp: A_def list_all_iff dest: in_set_takeD)
  have B: "list_all isDigit B" "length B = 2"
    using len dig by (auto simp: B_def list_all_iff dest: in_set_dropD)
  have "toFixed2 x = (if x < 0 then ''-'' else []) @ A @ CHR ''.'' # B"
    by (simp add: toFixed2_def Let_def A_def B_def m1_def m_def)
  then show ?thesis
    using twoDecimals_shape [OF A B] by simp
qed

text \<open>
  C9 (as amended). Every output record of \<open>getCampaignData\<close> is the formatting of an
  entry of the campaign map. In it totalCost, dailyAvgCost, costPerDay and averageCpc
  are rendered with exactly two decimal places, and so are totalConversions and
  totalConversionsValue when they are finite. The rate ctr is rendered with exactly two
  decimal places and a percent sign when totalImpressions is above 0, and as the bare
  text \<open>0%\<close> otherwise. Each statement is for a value of magnitude below \<open>10^21\<close>,
  where \<^verbatim>\<open>toFixed\<close> prints positionally.
\<close>

theorem two_decimal_renderings:
  "getCampaignData clk (Inr rows) query
     = Inr (map (formatCampaign clk) (mapValues (collect clk query rows)))
   \<and> (positional (costInCurrency c) \<longrightarrow> twoDecimals (r_totalCost (formatCampaign clk c)))
   \<and> (positional (dailyAvgCost c) \<longrightarrow>
        twoDecimals (r_dailyAvgCost (formatCampaign clk c))
        \<and> twoDecimals (r_costPerDay (formatCampaign clk c)))
   \<and> (positional (averageCpc c) \<longrightarrow> twoDecimals (r_averageCpc (formatCampaign clk c)))
   \<and> (totalConversions c = Fin q \<and> positional q \<longrightarrow>
        twoDecimals (r_totalConversions (formatCampaign clk c)))
   \<and> (totalConversionsValue c = Fin q' \<and> positional q' \<longrightarrow>
        twoDecimals (r_totalConversionsValue (formatCampaign clk c)))
   \<and> (0 < totalImpressions c
        \<and> positional (of_int (totalClicks c) / of_int (totalImpressions c) * 100) \<longrightarrow>
        twoDecimals (butlast (r_ctr (formatCampaign clk c)))
        \<and> last (r_ctr (formatCampaign clk c)) = CHR ''%'')
   \<and> (totalImpressions c \<le> 0 \<longrightarrow> r_ctr (formatCampaign clk c) = ''0%'')"
  by (simp add: getCampaignData_Inr formatCampaign_def formatCtr_def twoDecimals_toFixed2
      butlast_append)

text \<open>
  C9 as stated fails for a campaign without impressions, such as the zero-metrics
  fallback: its ctr is \<open>0%\<close>, whose numeric part \<open>0\<close> has no decimal places.
\<close>

theorem ctr_zero_percent_counterexample:
  "getCampaignData ex_clock (Inr [ex_campaign 3 ''2024-01-01'' (StatusNum 3)]) ex_query
     = Inr [ex_fallback]
   \<and> r_ctr ex_fallback = ''0%''
   \<and> \<not> twoDecimals (butlast (r_ctr ex_fallback))"
  by (simp add: ex_fallback_run) (simp add: ex_fallback_def twoDecimals_def)

lemma ex_entry_values:
  "costInCurrency ex_entry = 5" "dailyAvgCost ex_entry = 1 / 2" "averageCpc ex_entry = 1 / 2"
  "totalConversions ex_entry = Fin 3" "totalConversionsValue ex_entry = Fin 0"
  "totalImpressions ex_entry = 200" "totalClicks ex_entry = 10"
  by (simp_all add: ex_entry_def costInCurrency_def dailyAvgCost_def averageCpc_def)

lemma ex_entry_formatted: "formatCampaign ex_clock ex_entry = ex_report"
  using ex_paused_run
  by (simp add: getCampaignData_Inr collect_def mapValues_def ex_entry_run)

theorem two_decimal_renderings_witness:
  "positional (costInCurrency ex_entry) \<and> positional (dailyAvgCost ex_entry)
   \<and> positional (averageCpc ex_entry)
   \<and> totalConversions ex_entry = Fin 3 \<and> positional 3
   \<and> totalConversionsValue ex_entry = Fin 0 \<and> positional 0
   \<and> 0 < totalImpressions ex_entry
   \<and> positional (of_int (totalClicks ex_entry) / of_int (totalImpressions ex_entry) * 100)
   \<and> totalImpressions (zeroMetrics (campaignInfo_of (ex_campaign 3 ''2024-01-01'' (StatusNum 3))))
        \<le> 0
   \<and> twoDecimals (r_totalCost ex_report) \<and> twoDecimals (r_dailyAvgCost ex_report)
   \<and> twoDecimals (r_costPerDay ex_report) \<and> twoDecimals (r_averageCpc ex_report)
   \<and> twoDecimals (r_totalConversions ex_report)
   \<and> twoDecimals (r_totalConversionsValue ex_report)
   \<and> twoDecimals (butlast (r_ctr ex_report)) \<and> last (r_ctr ex_report) = CHR ''%''
   \<and> r_ctr (formatCampaign ex_clock
        (zeroMetrics (campaignInfo_of (ex_campaign 3 ''2024-01-01'' (StatusNum 3))))) = ''0%''"
proof -
  let ?z = "zeroMetrics (campaignInfo_of (ex_campaign 3 ''2024-01-01'' (StatusNum 3)))"
  have h: "positional (costInCurrency ex_entry)" "positional (dailyAvgCost ex_entry)"
    "positional (averageCpc ex_entry)" "positional 3" "positional 0"
    "positional (of_int (totalClicks ex_entry) / of_int (totalImpressions ex_entry) * 100)"
    by (simp_all add: ex_entry_values positional_def)
  have v: "totalConversions ex_entry = Fin 3" "totalConversionsValue ex_entry = Fin 0"
    "0 < totalImpressions ex_entry"
    by (simp_all add: ex_entry_values)
  have z: "totalImpressions ?z \<le> 0" by (simp add: zeroMetrics_fields)
  note T = two_decimal_renderings [of ex_clock "[]" ex_query ex_entry 3 0,
      unfolded ex_entry_formatted]
  note Z = two_decimal_renderings [of ex_clock "[]" ex_query ?z 0 0]
  from T h v have c: "twoDecimals (r_totalCost ex_report)" "twoDecimals (r_dailyAvgCost ex_report)"
    "twoDecimals (r_costPerDay ex_report)" "twoDecimals (r_averageCpc ex_report)"
    "twoDecimals (r_totalConversions ex_report)"
    "twoDecimals (r_totalConversionsValue ex_report)"
    "twoDecimals (butlast (r_ctr ex_report))" "last (r_ctr ex_report) = CHR ''%''"
    by blast+
  from Z z have "r_ctr (formatCampaign ex_clock ?z) = ''0%''" by blast
  with h v z c show ?thesis by (intro conjI)
qed

end
